theory Spec2Isabelle
  imports Main "HOL-Library.Char_ord" "HOL-Library.List_Lexorder"
begin

section \<open>Python values the tracker works with\<close>

text \<open>
  Exceptions are values. Every function of \<^verbatim>\<open>time_tracker.py\<close> that can raise returns
  \<open>py_error + 'a\<close>, with \<open>Inl\<close> for the exception that leaves the function.
\<close>

datatype py_error =
    OSError | JSONDecodeError | UnicodeDecodeError | AttributeError | KeyError
  | TypeError | ValueError | OverflowError | TermiosError

text \<open>
  What \<^verbatim>\<open>json.load\<close> returns. A time entry is the dict built in \<^verbatim>\<open>stop_tracking\<close>; the
  store read back from disk can hold any JSON value. Dicts keep their insertion order.
\<close>

datatype json =
    JNull | JBool bool | JNum int | JStr string
  | JList "json list" | JDict "(string \<times> json) list"

text \<open>\<^verbatim>\<open>entry["date"]\<close>: only a dict can be subscripted with a string.\<close>

fun subscript :: "json \<Rightarrow> string \<Rightarrow> py_error + json" where
  "subscript (JDict kvs) k = (case map_of kvs k of None \<Rightarrow> Inl KeyError | Some v \<Rightarrow> Inr v)"
| "subscript _ k = Inl TypeError"

text \<open>\<^verbatim>\<open>for entry in entries\<close>: a dict yields its keys, a string its characters.\<close>

fun iterate :: "json \<Rightarrow> py_error + json list" where
  "iterate (JList xs) = Inr xs"
| "iterate (JDict kvs) = Inr (map (\<lambda>kv. JStr (fst kv)) kvs)"
| "iterate (JStr s) = Inr (map (\<lambda>c. JStr [c]) s)"
| "iterate _ = Inl TypeError"

text \<open>\<^verbatim>\<open>entries.append(entry)\<close>: only a list has \<^verbatim>\<open>append\<close>.\<close>

fun append_json :: "json \<Rightarrow> json \<Rightarrow> py_error + json" where
  "append_json (JList xs) e = Inr (JList (xs @ [e]))"
| "append_json _ e = Inl AttributeError"

section \<open>The \<^verbatim>\<open>datetime\<close> operations the tracker calls\<close>

text \<open>
  A naive local \<^verbatim>\<open>datetime\<close>, as \<^verbatim>\<open>datetime.now()\<close> returns it. The calendar is
  CPython's proleptic Gregorian one: \<open>ymd2ord\<close> and \<open>ord2ymd\<close> follow
  \<^verbatim>\<open>_ymd2ord\<close> and \<^verbatim>\<open>_ord2ymd\<close> of the standard library.
\<close>

record datetime =
  year :: int
  month :: int
  day :: int
  hour :: int
  minute :: int
  second :: int
  microsecond :: int

definition DAYS_IN_MONTH :: "int list" where
  "DAYS_IN_MONTH = [-1, 31, 28, 31, 30, 31, 30, 31, 31, 30, 31, 30, 31]"

definition DAYS_BEFORE_MONTH :: "int list" where
  "DAYS_BEFORE_MONTH = [-1, 0, 31, 59, 90, 120, 151, 181, 212, 243, 273, 304, 334]"

definition MAXORDINAL :: int where
  "MAXORDINAL = 3652059"

definition is_leap :: "int \<Rightarrow> bool" where
  "is_leap y = (y mod 4 = 0 \<and> (y mod 100 \<noteq> 0 \<or> y mod 400 = 0))"

definition days_before_year :: "int \<Rightarrow> int" where
  "days_before_year y = (y - 1) * 365 + (y - 1) div 4 - (y - 1) div 100 + (y - 1) div 400"

definition days_in_month :: "int \<Rightarrow> int \<Rightarrow> int" where
  "days_in_month y m = (if m = 2 \<and> is_leap y then 29 else DAYS_IN_MONTH ! nat m)"

definition days_before_month :: "int \<Rightarrow> int \<Rightarrow> int" where
  "days_before_month y m = DAYS_BEFORE_MONTH ! nat m + (if m > 2 \<and> is_leap y then 1 else 0)"

definition ymd2ord :: "int \<Rightarrow> int \<Rightarrow> int \<Rightarrow> int" where
  "ymd2ord y m d = days_before_year y + days_before_month y m + d"

definition ord2ymd :: "int \<Rightarrow> int \<times> int \<times> int" where
  "ord2ymd n0 =
     (let n = n0 - 1;
          n400 = n div 146097; n = n mod 146097;
          n100 = n div 36524; n = n mod 36524;
          n4 = n div 1461; n = n mod 1461;
          n1 = n div 365; n = n mod 365;
          y = n400 * 400 + 1 + n100 * 100 + n4 * 4 + n1
      in if n1 = 4 \<or> n100 = 4 then (y - 1, 12, 31)
         else
           let leapyear = (n1 = 3 \<and> (n4 \<noteq> 24 \<or> n100 = 3));
               m = (n + 50) div 32;
               preceding = DAYS_BEFORE_MONTH ! nat m + (if m > 2 \<and> leapyear then 1 else 0)
           in if preceding > n
              then let m' = m - 1;
                       preceding' = preceding
                         - (DAYS_IN_MONTH ! nat m' + (if m' = 2 \<and> leapyear then 1 else 0))
                   in (y, m', n - preceding' + 1)
              else (y, m, n - preceding + 1))"

text \<open>The fields a \<^verbatim>\<open>datetime\<close> object can hold.\<close>

definition valid_datetime :: "datetime \<Rightarrow> bool" where
  "valid_datetime t =
     (1 \<le> year t \<and> year t \<le> 9999 \<and> 1 \<le> month t \<and> month t \<le> 12 \<and>
      1 \<le> day t \<and> day t \<le> days_in_month (year t) (month t) \<and>
      0 \<le> hour t \<and> hour t < 24 \<and> 0 \<le> minute t \<and> minute t < 60 \<and>
      0 \<le> second t \<and> second t < 60 \<and> 0 \<le> microsecond t \<and> microsecond t < 1000000)"

definition toordinal :: "datetime \<Rightarrow> int" where
  "toordinal t = ymd2ord (year t) (month t) (day t)"

text \<open>\<^verbatim>\<open>weekday()\<close>: Monday is 0, Sunday is 6.\<close>

definition weekday :: "datetime \<Rightarrow> int" where
  "weekday t = (toordinal t + 6) mod 7"

text \<open>
  \<^verbatim>\<open>t + timedelta(days=k)\<close>: the time of day stays, the date moves by \<open>k\<close> days, and a
  date outside years 1 to 9999 raises \<^verbatim>\<open>OverflowError\<close>.
\<close>

definition add_days :: "datetime \<Rightarrow> int \<Rightarrow> py_error + datetime" where
  "add_days t k =
     (let n = toordinal t + k
      in if 0 < n \<and> n \<le> MAXORDINAL
         then (case ord2ymd n of (y, m, d) \<Rightarrow> Inr (t\<lparr>year := y, month := m, day := d\<rparr>))
         else Inl OverflowError)"

text \<open>
  \<^verbatim>\<open>int((a - b).total_seconds())\<close>. The subtraction gives days, seconds and microseconds;
  \<^verbatim>\<open>total_seconds()\<close> divides their value in microseconds by \<open>10 ^ 6\<close> as a float, and
  \<^verbatim>\<open>int\<close> cuts the fraction off towards zero.
\<close>

definition second_of_day :: "datetime \<Rightarrow> int" where
  "second_of_day t = second t + minute t * 60 + hour t * 3600"

definition delta_microseconds :: "datetime \<Rightarrow> datetime \<Rightarrow> int" where
  "delta_microseconds a b =
     ((toordinal a - toordinal b) * 86400 + (second_of_day a - second_of_day b)) * 1000000
       + (microsecond a - microsecond b)"

text \<open>The integer nearest to \<open>n / d\<close>, a tie going to the even one (\<open>d\<close> positive).\<close>

definition round_half_even :: "int \<Rightarrow> int \<Rightarrow> int" where
  "round_half_even n d =
     (let q = n div d; r = n mod d
      in if 2 * r < d then q else if d < 2 * r then q + 1 else if even q then q else q + 1)"

text \<open>
  The least \<open>k\<close>, up to the fuel, with \<open>2 ^ 52 \<le> n * 2 ^ k / d\<close>: the number of binary
  places behind the point of a 53-bit mantissa for the quotient \<open>n / d\<close>.
\<close>

fun binade :: "nat \<Rightarrow> int \<Rightarrow> int \<Rightarrow> nat" where
  "binade 0 n d = 0"
| "binade (Suc fuel) n d = (if 2 ^ 52 * d \<le> n then 0 else Suc (binade fuel (2 * n) d))"

text \<open>
  \<^verbatim>\<open>int(n / d)\<close> for Python integers \<open>0 \<le> n\<close> and \<open>0 < d\<close> with a quotient below \<open>2 ^ 53\<close>:
  \<^verbatim>\<open>n / d\<close> is the double nearest to the quotient, a mantissa \<open>m\<close> of 53 bits with \<open>k\<close>
  places behind the point, and \<^verbatim>\<open>int\<close> gives its whole part. For the microseconds
  between two datetimes and \<open>d = 10 ^ 6\<close>, 128 steps are more than the search needs.
\<close>

definition float_div_int :: "int \<Rightarrow> int \<Rightarrow> int" where
  "float_div_int n d =
     (if n = 0 then 0
      else let k = binade 128 n d; m = round_half_even (n * 2 ^ k) d in m div 2 ^ k)"

text \<open>
  A \<^verbatim>\<open>datetime\<close> object always has valid fields. For records that are not valid, which
  stand for no Python value, the quotient is taken exactly.
\<close>

definition int_total_seconds :: "datetime \<Rightarrow> datetime \<Rightarrow> int" where
  "int_total_seconds a b =
     (let us = delta_microseconds a b
      in if valid_datetime a \<and> valid_datetime b
         then (if 0 \<le> us then float_div_int us 1000000 else - float_div_int (- us) 1000000)
         else (if 0 \<le> us then us div 1000000 else - ((- us) div 1000000)))"

subsection \<open>Formatting\<close>

definition digit :: "int \<Rightarrow> char" where
  "digit n = ''0123456789'' ! nat n"

fun str_nat :: "nat \<Rightarrow> string" where
  "str_nat n = (if n < 10 then [digit (int n)] else str_nat (n div 10) @ [digit (int (n mod 10))])"

declare str_nat.simps [simp del]

text \<open>\<^verbatim>\<open>str(n)\<close> of an integer, as an f-string renders it.\<close>

definition str_int :: "int \<Rightarrow> string" where
  "str_int n = (if n < 0 then CHR ''-'' # str_nat (nat (- n)) else str_nat (nat n))"

text \<open>The two-digit, zero-padded fields of \<^verbatim>\<open>strftime\<close> (\<^verbatim>\<open>%d\<close>, \<^verbatim>\<open>%m\<close>, \<^verbatim>\<open>%H\<close>, \<^verbatim>\<open>%M\<close>, \<^verbatim>\<open>%S\<close>).\<close>

definition pad2 :: "int \<Rightarrow> string" where
  "pad2 n = (if n < 10 then CHR ''0'' # str_int n else str_int n)"

text \<open>\<^verbatim>\<open>strftime('%d-%m-%Y')\<close>; \<^verbatim>\<open>%Y\<close> is the year in decimal (four digits from year 1000 on).\<close>

definition strftime_dmY :: "datetime \<Rightarrow> string" where
  "strftime_dmY t = pad2 (day t) @ ''-'' @ pad2 (month t) @ ''-'' @ str_int (year t)"

text \<open>\<^verbatim>\<open>strftime('%Y-%m-%d')\<close>, used in the name of the weekly export file.\<close>

definition strftime_Ymd :: "datetime \<Rightarrow> string" where
  "strftime_Ymd t = str_int (year t) @ ''-'' @ pad2 (month t) @ ''-'' @ pad2 (day t)"

text \<open>\<^verbatim>\<open>strftime('%H:%M:%S')\<close>.\<close>

definition strftime_HMS :: "datetime \<Rightarrow> string" where
  "strftime_HMS t = pad2 (hour t) @ '':'' @ pad2 (minute t) @ '':'' @ pad2 (second t)"

section \<open>Files, log and console\<close>

text \<open>
  The store file \<^verbatim>\<open>~/scripts/time_entries.json\<close> as \<^verbatim>\<open>load_time_entries\<close> meets it:
  \<^item> \<open>Absent\<close>: \<^verbatim>\<open>os.path.exists\<close> is false;
  \<^item> \<open>Unreadable\<close>: the file exists and \<^verbatim>\<open>open(..., 'r')\<close> raises \<^verbatim>\<open>OSError\<close>;
  \<^item> \<open>Undecodable\<close>: its bytes are not text in the locale's encoding (the byte \<open>0xFF\<close> under
    UTF-8), so the \<^verbatim>\<open>f.read()\<close> inside \<^verbatim>\<open>json.load\<close> raises \<^verbatim>\<open>UnicodeDecodeError\<close>;
  \<^item> \<open>Malformed\<close>: text that is no JSON document (an empty or truncated file), so
    \<^verbatim>\<open>json.load\<close> raises \<^verbatim>\<open>JSONDecodeError\<close>;
  \<^item> \<open>Document v\<close>: \<^verbatim>\<open>json.load\<close> returns \<open>v\<close>.
\<close>

datatype store_file = Absent | Unreadable | Undecodable | Malformed | Document json

text \<open>What the program prints and logs, by kind of message, with the values it carries.\<close>

datatype notice =
    AlreadyStarted | TrackingStarted | NothingToStop
  | StoppedManually int int | StoppedAutomatically int int | DataAdded
  | CsvAppendFailed py_error
  | WeeklyScheduled datetime | NoWeeklyEntries | WeeklyGenerated string | WeeklyFailed py_error

text \<open>
  Everything outside the process. A CSV file is its rows, \<open>None\<close> while the file does not
  exist; the weekly export files are kept by name. The \<open>_unwritable\<close> flags say that opening that file for writing raises
  \<^verbatim>\<open>OSError\<close> (no permission, disk full, directory gone).
\<close>

record world =
  store :: store_file
  master_csv :: "json list list option"
  weekly_csv :: "(string \<times> json list list) list"
  log_file :: "notice list"
  console :: "notice list"
  store_unwritable :: bool
  csv_unwritable :: bool
  weekly_unwritable :: bool
  log_unwritable :: bool

definition say :: "notice \<Rightarrow> world \<Rightarrow> world" where
  "say msg w = w\<lparr>console := console w @ [msg]\<rparr>"

text \<open>\<^verbatim>\<open>log(message)\<close> opens the log file for appending; the timestamp of the line is left out.\<close>

definition log :: "notice \<Rightarrow> world \<Rightarrow> py_error + world" where
  "log msg w = (if log_unwritable w then Inl OSError else Inr (w\<lparr>log_file := log_file w @ [msg]\<rparr>))"

definition load_time_entries :: "world \<Rightarrow> py_error + json" where
  "load_time_entries w =
     (case store w of
        Absent \<Rightarrow> Inr (JList [])
      | Unreadable \<Rightarrow> Inl OSError
      | Undecodable \<Rightarrow> Inl UnicodeDecodeError
      | Malformed \<Rightarrow> Inr (JList [])
      | Document v \<Rightarrow> Inr v)"

definition save_time_entries :: "json \<Rightarrow> world \<Rightarrow> (py_error + unit) \<times> world" where
  "save_time_entries entries w =
     (if store_unwritable w then (Inl OSError, w) else (Inr (), w\<lparr>store := Document entries\<rparr>))"

definition headers :: "json list" where
  "headers = [JStr ''Dato'', JStr ''Starttid'', JStr ''Sluttid'', JStr ''Varighed'']"

text \<open>The row \<^verbatim>\<open>[entry["date"], entry["start_time"], entry["end_time"], entry["duration"]]\<close>.\<close>

definition row_of :: "json \<Rightarrow> py_error + json list" where
  "row_of entry =
     (case subscript entry ''date'' of Inl e \<Rightarrow> Inl e | Inr a \<Rightarrow>
      case subscript entry ''start_time'' of Inl e \<Rightarrow> Inl e | Inr b \<Rightarrow>
      case subscript entry ''end_time'' of Inl e \<Rightarrow> Inl e | Inr c \<Rightarrow>
      case subscript entry ''duration'' of Inl e \<Rightarrow> Inl e | Inr d \<Rightarrow> Inr [a, b, c, d])"

text \<open>The \<^verbatim>\<open>try\<close> block of \<^verbatim>\<open>append_to_csv\<close>: open for appending, header on a new file, the row.\<close>

definition write_master_row :: "json \<Rightarrow> world \<Rightarrow> (py_error + unit) \<times> world" where
  "write_master_row entry w =
     (if csv_unwritable w then (Inl OSError, w)
      else
        let rows = (case master_csv w of None \<Rightarrow> [headers] | Some rs \<Rightarrow> rs);
            w1 = w\<lparr>master_csv := Some rows\<rparr>
        in case row_of entry of
             Inl e \<Rightarrow> (Inl e, w1)
           | Inr r \<Rightarrow> (Inr (), w1\<lparr>master_csv := Some (rows @ [r])\<rparr>))"

text \<open>
  \<^verbatim>\<open>append_to_csv\<close>: \<^verbatim>\<open>except Exception\<close> catches whatever the block raises, then logs and
  prints it. The handler's own \<^verbatim>\<open>log\<close> call is not protected. \<^verbatim>\<open>csv_lock\<close> is taken and
  released around the body, which changes nothing for one caller.
\<close>

definition append_to_csv :: "json \<Rightarrow> world \<Rightarrow> (py_error + unit) \<times> world" where
  "append_to_csv entry w =
     (case write_master_row entry w of
        (Inr u, w1) \<Rightarrow> (Inr (), w1)
      | (Inl e, w1) \<Rightarrow>
          (case log (CsvAppendFailed e) w1 of
             Inl e' \<Rightarrow> (Inl e', w1)
           | Inr w2 \<Rightarrow> (Inr (), say (CsvAppendFailed e) w2)))"

definition append_time_entry :: "json \<Rightarrow> world \<Rightarrow> (py_error + unit) \<times> world" where
  "append_time_entry entry w =
     (case load_time_entries w of
        Inl e \<Rightarrow> (Inl e, w)
      | Inr entries \<Rightarrow>
          (case append_json entries entry of
             Inl e \<Rightarrow> (Inl e, w)
           | Inr entries' \<Rightarrow>
               (case save_time_entries entries' w of
                  (Inl e, w1) \<Rightarrow> (Inl e, w1)
                | (Inr u, w1) \<Rightarrow> append_to_csv entry w1)))"

section \<open>The session\<close>

text \<open>The globals of the module. A \<^verbatim>\<open>threading.Timer\<close> is its interval in seconds and two flags.\<close>

record timer =
  interval :: int
  alive :: bool
  cancelled :: bool

datatype thread = DisplayTimer | ListenForStop

record session =
  is_tracking :: bool
  start_time :: "datetime option"
  stop_event :: bool
  auto_stop_timer :: "timer option"
  daemon_threads :: "thread list"

definition MAX_DURATION :: int where
  "MAX_DURATION = 7 * 3600 + 40 * 60"

type_synonym 'a outcome = "(py_error + 'a) \<times> session \<times> world"

text \<open>\<^verbatim>\<open>start_tracking\<close>; \<open>now\<close> is what \<^verbatim>\<open>datetime.now()\<close> returns on line 100.\<close>

definition start_tracking :: "datetime \<Rightarrow> session \<Rightarrow> world \<Rightarrow> unit outcome" where
  "start_tracking now s w =
     (if is_tracking s then (Inr (), s, say AlreadyStarted w)
      else
        let s1 = s\<lparr>is_tracking := True, start_time := Some now\<rparr>;
            w1 = say TrackingStarted w
        in case log TrackingStarted w1 of
             Inl e \<Rightarrow> (Inl e, s1, w1)
           | Inr w2 \<Rightarrow>
               (Inr (),
                s1\<lparr>auto_stop_timer := Some \<lparr>interval = MAX_DURATION, alive = True, cancelled = False\<rparr>,
                   daemon_threads := daemon_threads s1 @ [DisplayTimer, ListenForStop]\<rparr>,
                w2))"

text \<open>Lines 122 to 124: the hours and minutes of \<^verbatim>\<open>end_time - start_time\<close>.\<close>

definition duration_hm :: "datetime \<Rightarrow> datetime \<Rightarrow> int \<times> int" where
  "duration_hm st en =
     (let total = int_total_seconds en st;
          hours = total div 3600; remainder = total mod 3600;
          minutes = remainder div 60
      in (hours, minutes))"

text \<open>Lines 139 to 144: the entry of a session.\<close>

definition make_entry :: "datetime \<Rightarrow> datetime \<Rightarrow> json" where
  "make_entry st en =
     (case duration_hm st en of (hours, minutes) \<Rightarrow>
        JDict [(''date'', JStr (strftime_dmY st)),
               (''start_time'', JStr (strftime_HMS st)),
               (''end_time'', JStr (strftime_HMS en)),
               (''duration'', JStr (str_int hours @ ''h'' @ str_int minutes @ ''m''))])"

text \<open>Lines 127 and 128.\<close>

definition cancel_timer :: "session \<Rightarrow> session" where
  "cancel_timer s =
     (case auto_stop_timer s of
        None \<Rightarrow> s
      | Some t \<Rightarrow> if alive t then s\<lparr>auto_stop_timer := Some (t\<lparr>cancelled := True\<rparr>)\<rparr> else s)"

definition stopped :: "bool \<Rightarrow> int \<times> int \<Rightarrow> notice" where
  "stopped manual hm = (if manual then StoppedManually (fst hm) (snd hm)
                        else StoppedAutomatically (fst hm) (snd hm))"

text \<open>
  \<^verbatim>\<open>stop_tracking\<close> in the three parts it runs one after the other: the test of the flag
  (line 118), the record (lines 121 to 145, \<open>now\<close> being the \<^verbatim>\<open>datetime.now()\<close> of line 121)
  and the transition (lines 147 to 153). \<^verbatim>\<open>start_time\<close> is still \<^verbatim>\<open>None\<close> if the flag was set
  by nothing but \<^verbatim>\<open>start_tracking\<close>; subtracting it raises \<^verbatim>\<open>TypeError\<close>.
\<close>

definition stop_record :: "bool \<Rightarrow> datetime \<Rightarrow> session \<Rightarrow> world \<Rightarrow> unit outcome" where
  "stop_record manual now s w =
     (case start_time s of
        None \<Rightarrow> (Inl TypeError, s, w)
      | Some st \<Rightarrow>
          let hm = duration_hm st now;
              s1 = cancel_timer s;
              w1 = say (stopped manual hm) w
          in case log (stopped manual hm) w1 of
               Inl e \<Rightarrow> (Inl e, s1, w1)
             | Inr w2 \<Rightarrow>
                 (case append_time_entry (make_entry st now) w2 of (r, w3) \<Rightarrow> (r, s1, w3)))"

definition stop_transition :: "session \<Rightarrow> world \<Rightarrow> unit outcome" where
  "stop_transition s w =
     (let s1 = s\<lparr>is_tracking := False, stop_event := True\<rparr>;
          w1 = say DataAdded w
      in case log DataAdded w1 of
           Inl e \<Rightarrow> (Inl e, s1, w1)
         | Inr w2 \<Rightarrow> (Inr (), s1, w2))"

definition stop_tracking :: "bool \<Rightarrow> datetime \<Rightarrow> session \<Rightarrow> world \<Rightarrow> unit outcome" where
  "stop_tracking manual now s w =
     (if \<not> is_tracking s then (Inr (), s, say NothingToStop w)
      else
        case stop_record manual now s w of
          (Inl e, s1, w1) \<Rightarrow> (Inl e, s1, w1)
        | (Inr u, s1, w1) \<Rightarrow> stop_transition s1 w1)"

text \<open>
  Several callers of \<^verbatim>\<open>stop_tracking\<close> at once: the key listener thread, the auto-stop
  timer thread and the signal handler. Each caller is at one of the three parts above, has
  returned, or has raised; a step runs the next part of one caller, and a schedule names
  the caller of each step. Python switches threads, and runs a signal handler, between any
  two bytecodes, so every schedule of whole parts is an execution of the program.
  \<open>clock c\<close> is what \<^verbatim>\<open>datetime.now()\<close> returns when caller \<open>c\<close> reaches line 121.
\<close>

datatype pc = AtTest | AtRecord | AtTransition | Returned | Raised py_error

record caller =
  manual :: bool
  clock :: datetime
  at :: pc

definition advance :: "caller \<Rightarrow> session \<Rightarrow> world \<Rightarrow> caller \<times> session \<times> world" where
  "advance c s w =
     (case at c of
        AtTest \<Rightarrow>
          if \<not> is_tracking s then (c\<lparr>at := Returned\<rparr>, s, say NothingToStop w)
          else (c\<lparr>at := AtRecord\<rparr>, s, w)
      | AtRecord \<Rightarrow>
          (case stop_record (manual c) (clock c) s w of
             (Inl e, s1, w1) \<Rightarrow> (c\<lparr>at := Raised e\<rparr>, s1, w1)
           | (Inr u, s1, w1) \<Rightarrow> (c\<lparr>at := AtTransition\<rparr>, s1, w1))
      | AtTransition \<Rightarrow>
          (case stop_transition s w of
             (Inl e, s1, w1) \<Rightarrow> (c\<lparr>at := Raised e\<rparr>, s1, w1)
           | (Inr u, s1, w1) \<Rightarrow> (c\<lparr>at := Returned\<rparr>, s1, w1))
      | Returned \<Rightarrow> (c, s, w)
      | Raised e \<Rightarrow> (c, s, w))"

definition step :: "nat \<Rightarrow> caller list \<times> session \<times> world \<Rightarrow> caller list \<times> session \<times> world" where
  "step i conf =
     (case conf of (cs, s, w) \<Rightarrow>
        if i < length cs
        then (case advance (cs ! i) s w of (c', s', w') \<Rightarrow> (cs[i := c'], s', w'))
        else (cs, s, w))"

definition run :: "nat list \<Rightarrow> caller list \<times> session \<times> world \<Rightarrow> caller list \<times> session \<times> world" where
  "run schedule conf = foldl (\<lambda>c i. step i c) conf schedule"

text \<open>Calls of \<^verbatim>\<open>stop_tracking\<close> one after the other, each returning before the next begins.\<close>

fun finalize_all :: "(bool \<times> datetime) list \<Rightarrow> session \<Rightarrow> world \<Rightarrow> unit outcome" where
  "finalize_all [] s w = (Inr (), s, w)"
| "finalize_all (c # cs) s w =
     (case stop_tracking (fst c) (snd c) s w of
        (Inl e, s1, w1) \<Rightarrow> (Inl e, s1, w1)
      | (Inr u, s1, w1) \<Rightarrow> finalize_all cs s1 w1)"

section \<open>The weekly export\<close>

definition WEEKLY_CSV_DAY :: string where
  "WEEKLY_CSV_DAY = ''Friday''"

definition WEEKLY_CSV_TIME :: string where
  "WEEKLY_CSV_TIME = ''16:00''"

text \<open>
  \<^verbatim>\<open>datetime.strptime(s, '%A')\<close>: the string has to be a full English day name (Python
  accepts it in any letter case). The day name fills no field of the result: a
  \<^verbatim>\<open>datetime\<close> has none for it, so the result is the default date, 1900-01-01 at midnight.
\<close>

definition strptime_A :: "string \<Rightarrow> py_error + datetime" where
  "strptime_A s =
     (if s \<in> set [''Monday'', ''Tuesday'', ''Wednesday'', ''Thursday'', ''Friday'', ''Saturday'', ''Sunday'']
      then Inr \<lparr>year = 1900, month = 1, day = 1, hour = 0, minute = 0, second = 0, microsecond = 0\<rparr>
      else Inl ValueError)"

definition digit_of :: "char \<Rightarrow> int option" where
  "digit_of = map_of [(CHR ''0'', 0), (CHR ''1'', 1), (CHR ''2'', 2), (CHR ''3'', 3), (CHR ''4'', 4),
                      (CHR ''5'', 5), (CHR ''6'', 6), (CHR ''7'', 7), (CHR ''8'', 8), (CHR ''9'', 9)]"

text \<open>A field of one or two decimal digits.\<close>

fun two_digits :: "string \<Rightarrow> int option" where
  "two_digits [a] = digit_of a"
| "two_digits [a, b] =
     (case digit_of a of None \<Rightarrow> None | Some x \<Rightarrow>
      case digit_of b of None \<Rightarrow> None | Some y \<Rightarrow> Some (10 * x + y))"
| "two_digits _ = None"

text \<open>\<^verbatim>\<open>datetime.strptime(s, '%H:%M')\<close>: hour below 24, minute below 60, on the default date.\<close>

definition strptime_HM :: "string \<Rightarrow> py_error + datetime" where
  "strptime_HM s =
     (case dropWhile (\<lambda>c. c \<noteq> CHR '':'') s of
        [] \<Rightarrow> Inl ValueError
      | colon # rest \<Rightarrow>
          (case two_digits (takeWhile (\<lambda>c. c \<noteq> CHR '':'') s) of None \<Rightarrow> Inl ValueError | Some h \<Rightarrow>
           case two_digits rest of None \<Rightarrow> Inl ValueError | Some m \<Rightarrow>
             if h < 24 \<and> m < 60
             then Inr \<lparr>year = 1900, month = 1, day = 1, hour = h, minute = m, second = 0, microsecond = 0\<rparr>
             else Inl ValueError))"

text \<open>\<^verbatim>\<open>.time()\<close>; two times compare as the tuples hour, minute, second, microsecond.\<close>

definition time_of :: "datetime \<Rightarrow> int list" where
  "time_of t = [hour t, minute t, second t, microsecond t]"

text \<open>Lines 178 to 184 of \<^verbatim>\<open>schedule_weekly_csv\<close>: the next run.\<close>

definition next_weekly_run :: "datetime \<Rightarrow> py_error + datetime" where
  "next_weekly_run now =
     (case strptime_HM WEEKLY_CSV_TIME of Inl e \<Rightarrow> Inl e | Inr target_time \<Rightarrow>
      case strptime_A WEEKLY_CSV_DAY of Inl e \<Rightarrow> Inl e | Inr target_day \<Rightarrow>
        let days_ahead = (weekday target_day - weekday now) mod 7;
            days_ahead = (if days_ahead = 0 \<and> time_of now > time_of target_time then 7 else days_ahead)
        in case add_days now days_ahead of
             Inl e \<Rightarrow> Inl e
           | Inr next_run \<Rightarrow>
               Inr (next_run\<lparr>hour := hour target_time, minute := minute target_time,
                             second := 0, microsecond := 0\<rparr>))"

text \<open>
  \<^verbatim>\<open>schedule_weekly_csv\<close> arms a timer for the delay to the next run (kept here in
  microseconds), then logs and prints the next run.
\<close>

record scheduler =
  armed :: "int list"

definition schedule_weekly_csv ::
  "datetime \<Rightarrow> scheduler \<Rightarrow> world \<Rightarrow> (py_error + datetime) \<times> scheduler \<times> world" where
  "schedule_weekly_csv now sch w =
     (case next_weekly_run now of
        Inl e \<Rightarrow> (Inl e, sch, w)
      | Inr next_run \<Rightarrow>
          let sch1 = sch\<lparr>armed := armed sch @ [delta_microseconds next_run now]\<rparr>
          in case log (WeeklyScheduled next_run) w of
               Inl e \<Rightarrow> (Inl e, sch1, w)
             | Inr w1 \<Rightarrow> (Inr next_run, sch1, say (WeeklyScheduled next_run) w1))"

text \<open>Lines 198 and 199: Monday and Sunday of the week of \<open>now\<close>, both at the time of \<open>now\<close>.\<close>

definition week_bounds :: "datetime \<Rightarrow> py_error + datetime \<times> datetime" where
  "week_bounds now =
     (case add_days now (- weekday now) of Inl e \<Rightarrow> Inl e | Inr start_of_week \<Rightarrow>
      case add_days start_of_week 6 of Inl e \<Rightarrow> Inl e | Inr end_of_week \<Rightarrow>
        Inr (start_of_week, end_of_week))"

text \<open>
  Line 207, the test of one entry. Both comparisons are between Python strings, which
  compare character by character: \<open>\<le>\<close> on \<open>string\<close> is that order.
\<close>

definition in_week :: "string \<Rightarrow> string \<Rightarrow> json \<Rightarrow> py_error + bool" where
  "in_week lo hi entry =
     (case subscript entry ''date'' of
        Inl e \<Rightarrow> Inl e
      | Inr (JStr d) \<Rightarrow> Inr (lo \<le> d \<and> d \<le> hi)
      | Inr _ \<Rightarrow> Inl TypeError)"

fun filter_week :: "string \<Rightarrow> string \<Rightarrow> json list \<Rightarrow> py_error + json list" where
  "filter_week lo hi [] = Inr []"
| "filter_week lo hi (e # es) =
     (case in_week lo hi e of Inl err \<Rightarrow> Inl err | Inr b \<Rightarrow>
      case filter_week lo hi es of Inl err \<Rightarrow> Inl err | Inr r \<Rightarrow> Inr (if b then e # r else r))"

text \<open>Lines 197 to 208 without the load: the entries of the store that go into the export.\<close>

definition weekly_entries :: "datetime \<Rightarrow> json \<Rightarrow> py_error + json list" where
  "weekly_entries now entries =
     (case week_bounds now of Inl e \<Rightarrow> Inl e | Inr b \<Rightarrow>
      case iterate entries of Inl e \<Rightarrow> Inl e | Inr es \<Rightarrow>
        filter_week (strftime_dmY (fst b)) (strftime_dmY (snd b)) es)"

fun write_rows :: "json list \<Rightarrow> json list list \<Rightarrow> (py_error + unit) \<times> json list list" where
  "write_rows [] rows = (Inr (), rows)"
| "write_rows (e # es) rows =
     (case row_of e of Inl err \<Rightarrow> (Inl err, rows) | Inr r \<Rightarrow> write_rows es (rows @ [r]))"

text \<open>The \<^verbatim>\<open>try\<close> block of lines 222 to 234.\<close>

definition write_weekly :: "string \<Rightarrow> json list \<Rightarrow> world \<Rightarrow> (py_error + unit) \<times> world" where
  "write_weekly name es w =
     (if weekly_unwritable w then (Inl OSError, w)
      else
        case write_rows es [headers] of (r, rows) \<Rightarrow>
          let w1 = w\<lparr>weekly_csv := (name, rows) # filter (\<lambda>f. fst f \<noteq> name) (weekly_csv w)\<rparr>
          in case r of
               Inl e \<Rightarrow> (Inl e, w1)
             | Inr u \<Rightarrow>
                 (case log (WeeklyGenerated name) w1 of
                    Inl e \<Rightarrow> (Inl e, w1)
                  | Inr w2 \<Rightarrow> (Inr (), say (WeeklyGenerated name) w2)))"

text \<open>Lines 210 to 237: the report of an empty week, or the export with its handler.\<close>

definition export_week :: "datetime \<Rightarrow> json list \<Rightarrow> world \<Rightarrow> (py_error + unit) \<times> world" where
  "export_week end_of_week es w =
     (if es = [] then
        (case log NoWeeklyEntries w of
           Inl e \<Rightarrow> (Inl e, w)
         | Inr w1 \<Rightarrow> (Inr (), say NoWeeklyEntries w1))
      else
        case write_weekly (''time_tracker_weekly_'' @ strftime_Ymd end_of_week @ ''.csv'') es w of
          (Inr u, w1) \<Rightarrow> (Inr (), w1)
        | (Inl e, w1) \<Rightarrow>
            (case log (WeeklyFailed e) w1 of
               Inl e' \<Rightarrow> (Inl e', w1)
             | Inr w2 \<Rightarrow> (Inr (), say (WeeklyFailed e) w2)))"

text \<open>
  \<^verbatim>\<open>generate_weekly_csv\<close>; \<open>now\<close> is the \<^verbatim>\<open>datetime.now()\<close> of line 197 and \<open>later\<close> the one
  that \<^verbatim>\<open>schedule_weekly_csv\<close> reads when it is called on line 240.
\<close>

definition generate_weekly_csv ::
  "datetime \<Rightarrow> datetime \<Rightarrow> scheduler \<Rightarrow> world \<Rightarrow> (py_error + datetime) \<times> scheduler \<times> world" where
  "generate_weekly_csv now later sch w =
     (case week_bounds now of Inl e \<Rightarrow> (Inl e, sch, w) | Inr b \<Rightarrow>
      case load_time_entries w of Inl e \<Rightarrow> (Inl e, sch, w) | Inr entries \<Rightarrow>
      case weekly_entries now entries of Inl e \<Rightarrow> (Inl e, sch, w) | Inr es \<Rightarrow>
      case export_week (snd b) es w of
        (Inl e, w1) \<Rightarrow> (Inl e, sch, w1)
      | (Inr u, w1) \<Rightarrow> schedule_weekly_csv later sch w1)"

section \<open>One key from the terminal\<close>

text \<open>
  The terminal is its attributes, of any type, and whether standard input is a terminal
  at all. \<open>raw\<close> is what \<^verbatim>\<open>tty.setraw\<close> does to the attributes.
  \<^verbatim>\<open>termios.tcgetattr\<close> raises on a descriptor that is no terminal.
\<close>

record 'a terminal =
  is_tty :: bool
  attrs :: 'a

text \<open>
  How \<^verbatim>\<open>sys.stdin.read(1)\<close> ends: with a key (the empty string at end of input), with an
  exception, or not at all. The key listener is a daemon thread; when the main thread
  leaves through \<^verbatim>\<open>sys.exit(0)\<close> while the listener waits in \<^verbatim>\<open>read\<close>, the thread is
  dropped there and runs nothing more, its \<^verbatim>\<open>finally\<close> clause included.
\<close>

datatype read_outcome = Key string | ReadRaises py_error | Killed

text \<open>
  What happens around one call: the exception \<^verbatim>\<open>tty.setraw\<close> raises, if any; how the
  read ends; the exception the \<^verbatim>\<open>termios.tcsetattr\<close> of the \<^verbatim>\<open>finally\<close> clause raises, if
  any (the terminal hung up during the read).
\<close>

record tty_events =
  setraw_fault :: "py_error option"
  reading :: read_outcome
  restore_fault :: "py_error option"

text \<open>
  The \<^verbatim>\<open>try\<close> block of \<^verbatim>\<open>get_key_press\<close>. The result is \<open>None\<close> when the block never
  comes to an end.
\<close>

definition raw_read ::
  "('a \<Rightarrow> 'a) \<Rightarrow> tty_events \<Rightarrow> 'a terminal \<Rightarrow> (py_error + string) option \<times> 'a terminal" where
  "raw_read raw ev t =
     (case setraw_fault ev of
        Some e \<Rightarrow> (Some (Inl e), t)
      | None \<Rightarrow>
          (case reading ev of
             Key ch \<Rightarrow> (Some (Inr ch), t\<lparr>attrs := raw (attrs t)\<rparr>)
           | ReadRaises e \<Rightarrow> (Some (Inl e), t\<lparr>attrs := raw (attrs t)\<rparr>)
           | Killed \<Rightarrow> (None, t\<lparr>attrs := raw (attrs t)\<rparr>)))"

text \<open>
  \<^verbatim>\<open>get_key_press\<close>. The \<^verbatim>\<open>finally\<close> clause runs when the block has returned or raised;
  an exception of its own \<^verbatim>\<open>tcsetattr\<close> takes the place of the block's result and leaves
  the attributes as the block left them. The result is \<open>None\<close> when the call never ends.
\<close>

definition get_key_press ::
  "('a \<Rightarrow> 'a) \<Rightarrow> tty_events \<Rightarrow> 'a terminal \<Rightarrow> (py_error + string) option \<times> 'a terminal" where
  "get_key_press raw ev t =
     (if \<not> is_tty t then (Some (Inl TermiosError), t)
      else
        let old_settings = attrs t
        in case raw_read raw ev t of
             (None, t1) \<Rightarrow> (None, t1)
           | (Some r, t1) \<Rightarrow>
               (case restore_fault ev of
                  Some e \<Rightarrow> (Some (Inl e), t1)
                | None \<Rightarrow> (Some r, t1\<lparr>attrs := old_settings\<rparr>)))"

section \<open>Notions of the statements\<close>

text \<open>\<^verbatim>\<open>datetime(y, m, d, H, M, S)\<close>.\<close>

definition datetime_of :: "int \<Rightarrow> int \<Rightarrow> int \<Rightarrow> int \<Rightarrow> int \<Rightarrow> int \<Rightarrow> datetime" where
  "datetime_of y m d H M S =
     \<lparr>year = y, month = m, day = d, hour = H, minute = M, second = S, microsecond = 0\<rparr>"

text \<open>The time \<open>H:M:S\<close> on the day of \<open>t\<close>.\<close>

definition at_time :: "datetime \<Rightarrow> int \<Rightarrow> int \<Rightarrow> int \<Rightarrow> datetime" where
  "at_time t H M S = t\<lparr>hour := H, minute := M, second := S, microsecond := 0\<rparr>"

definition microsecond_of_day :: "datetime \<Rightarrow> int" where
  "microsecond_of_day t = second_of_day t * 1000000 + microsecond t"

definition same_day :: "datetime \<Rightarrow> datetime \<Rightarrow> bool" where
  "same_day a b = (year a = year b \<and> month a = month b \<and> day a = day b)"

text \<open>The globals as the module initialises them (lines 28 to 31).\<close>

definition idle :: session where
  "idle = \<lparr>is_tracking = False, start_time = None, stop_event = False,
           auto_stop_timer = None, daemon_threads = []\<rparr>"

text \<open>A session that \<^verbatim>\<open>start_tracking\<close> began at \<open>st\<close>.\<close>

definition active :: "datetime \<Rightarrow> session" where
  "active st =
     \<lparr>is_tracking = True, start_time = Some st, stop_event = False,
      auto_stop_timer = Some \<lparr>interval = MAX_DURATION, alive = True, cancelled = False\<rparr>,
      daemon_threads = [DisplayTimer, ListenForStop]\<rparr>"

text \<open>No file written yet, every file writable.\<close>

definition fresh :: world where
  "fresh = \<lparr>store = Absent, master_csv = None, weekly_csv = [], log_file = [], console = [],
            store_unwritable = False, csv_unwritable = False, weekly_unwritable = False,
            log_unwritable = False\<rparr>"

text \<open>An entry of the store with the given date and a session from nine to five.\<close>

definition entry_dated :: "string \<Rightarrow> json" where
  "entry_dated d =
     JDict [(''date'', JStr d), (''start_time'', JStr ''09:00:00''),
            (''end_time'', JStr ''17:00:00''), (''duration'', JStr ''8h0m'')]"

text \<open>Two callers of \<^verbatim>\<open>stop_tracking\<close> about to run it: the key listener and the auto-stop timer.\<close>

definition key_listener :: "datetime \<Rightarrow> caller" where
  "key_listener t = \<lparr>manual = True, clock = t, at = AtTest\<rparr>"

definition timeout :: "datetime \<Rightarrow> caller" where
  "timeout t = \<lparr>manual = False, clock = t, at = AtTest\<rparr>"





text \<open>A terminal in its usual mode, and what \<^verbatim>\<open>tty.setraw\<close> makes of any mode.\<close>

definition cooked :: "string terminal" where
  "cooked = \<lparr>is_tty = True, attrs = ''cooked''\<rparr>"

definition to_raw :: "string \<Rightarrow> string" where
  "to_raw mode = ''raw''"


section \<open>The session clock\<close>

text \<open>
  Below \<open>2 ^ 53\<close> microseconds, some 285 years, the float of \<^verbatim>\<open>total_seconds()\<close> has the
  whole seconds of the exact quotient.
\<close>

lemma binade_reaches:
  "2 ^ 52 * d \<le> n * 2 ^ fuel \<Longrightarrow> 2 ^ 52 * d \<le> n * 2 ^ binade fuel n d"
proof (induction fuel arbitrary: n)
  case 0
  then show ?case by simp
next
  case (Suc fuel)
  show ?case
  proof (cases "2 ^ 52 * d \<le> n")
    case True
    then show ?thesis by simp
  next
    case False
    have "2 ^ 52 * d \<le> (2 * n) * 2 ^ fuel"
      using Suc.prems by (simp add: mult.assoc mult.left_commute)
    then have "2 ^ 52 * d \<le> (2 * n) * 2 ^ binade fuel (2 * n) d"
      by (rule Suc.IH)
    with False show ?thesis by (simp add: mult.assoc mult.left_commute)
  qed
qed

lemma round_half_even_near:
  assumes "0 < d"
  shows "2 * (round_half_even n d * d) \<le> 2 * n + d \<and> 2 * n \<le> 2 * (round_half_even n d * d) + d"
proof -
  have n: "n = (n div d) * d + n mod d" by simp
  have r: "0 \<le> n mod d" "n mod d < d" using assms by simp_all
  define q where "q = n div d"
  define r where "r = n mod d"
  have n': "n = q * d + r" and r': "0 \<le> r" "r < d"
    using n r by (simp_all add: q_def r_def)
  have "round_half_even n d = q \<and> 2 * r \<le> d \<or> round_half_even n d = q + 1 \<and> d \<le> 2 * r"
    by (auto simp: round_half_even_def Let_def q_def r_def)
  then show ?thesis
  proof
    assume "round_half_even n d = q \<and> 2 * r \<le> d"
    then show ?thesis using n' r' by simp
  next
    assume "round_half_even n d = q + 1 \<and> d \<le> 2 * r"
    then show ?thesis using n' r' by (simp add: algebra_simps)
  qed
qed

lemma float_div_int_exact:
  assumes "0 \<le> n" and "n < 2 ^ 53"
  shows "float_div_int n 1000000 = n div 1000000"
proof (cases "n = 0")
  case True
  then show ?thesis by (simp add: float_div_int_def)
next
  case False
  then have pos: "1 \<le> n" using assms(1) by simp
  define d :: int where "d = 1000000"
  define k where "k = binade 128 n d"
  define P :: int where "P = 2 ^ k"
  define m where "m = round_half_even (n * P) d"
  define T where "T = n div d"
  define r where "r = n mod d"
  have dpos: "0 < d" by (simp add: d_def)
  have Ppos: "0 < P" by (simp add: P_def)
  have "2 ^ 52 * d \<le> (1::int) * 2 ^ 128" by (simp add: d_def)
  also have "\<dots> \<le> n * 2 ^ 128" using pos by (intro mult_right_mono) simp_all
  finally have "2 ^ 52 * d \<le> n * P"
    unfolding P_def k_def by (rule binade_reaches)
  moreover have "n * P < 2 ^ 53 * P"
    using assms(2) Ppos by (intro mult_strict_right_mono) simp_all
  ultimately have "2 ^ 52 * d < 2 ^ 53 * P" by linarith
  then have big: "d < 2 * P" by simp
  have n: "n = T * d + r" and r: "0 \<le> r" "r \<le> d - 1"
    using dpos by (simp_all add: T_def r_def)
  have near: "2 * (m * d) \<le> 2 * (n * P) + d" "2 * (n * P) \<le> 2 * (m * d) + d"
    using round_half_even_near [OF dpos, of "n * P"] by (simp_all add: m_def)
  have nP: "n * P = T * P * d + r * P"
    by (subst n) (simp add: algebra_simps)
  have rP: "0 \<le> r * P" "r * P \<le> (d - 1) * P"
    using r Ppos by (simp_all add: mult_right_mono)
  have lower: "T * P \<le> m"
  proof (rule ccontr)
    assume "\<not> T * P \<le> m"
    then have "m \<le> T * P - 1" by simp
    then have "m * d \<le> (T * P - 1) * d" using dpos by (intro mult_right_mono) simp_all
    then have "m * d \<le> T * P * d - d" by (simp add: algebra_simps)
    with near(2) nP rP(1) dpos show False by linarith
  qed
  have upper: "m < (T + 1) * P"
  proof (rule ccontr)
    assume "\<not> m < (T + 1) * P"
    then have "(T + 1) * P \<le> m" by simp
    then have "(T + 1) * P * d \<le> m * d" using dpos by (intro mult_right_mono) simp_all
    then have "T * P * d + P * d \<le> m * d" by (simp add: algebra_simps)
    moreover have "(d - 1) * P = P * d - P" by (simp add: algebra_simps)
    ultimately show False using near(1) nP rP(2) big by linarith
  qed
  have "m div P = T"
  proof -
    have "m = P * T + (m - T * P)" by (simp add: algebra_simps)
    moreover have "0 \<le> m - T * P" using lower by simp
    moreover have "m - T * P < P" using upper by (simp add: algebra_simps)
    ultimately show ?thesis by (rule int_div_pos_eq)
  qed
  then show ?thesis
    using False by (simp add: float_div_int_def Let_def m_def P_def k_def d_def T_def)
qed

lemma int_total_seconds_floor:
  assumes "0 \<le> delta_microseconds a b"
    and "valid_datetime a \<and> valid_datetime b \<longrightarrow> delta_microseconds a b < 2 ^ 53"
  shows "int_total_seconds a b = delta_microseconds a b div 1000000"
  using assms float_div_int_exact [of "delta_microseconds a b"]
  by (auto simp: int_total_seconds_def Let_def)


lemma second_of_day_range:
  "valid_datetime t \<Longrightarrow> 0 \<le> second_of_day t \<and> second_of_day t < 86400"
  by (simp add: valid_datetime_def second_of_day_def)

lemma microsecond_of_day_range:
  assumes "valid_datetime t"
  shows "0 \<le> microsecond_of_day t \<and> microsecond_of_day t < 86400000000"
proof -
  have "0 \<le> microsecond t" "microsecond t < 1000000"
    using assms by (simp_all add: valid_datetime_def)
  then show ?thesis
    using second_of_day_range [OF assms] by (simp add: microsecond_of_day_def)
qed

lemma str_int_digit: "0 \<le> n \<Longrightarrow> n < 10 \<Longrightarrow> str_int n = [digit n]"
proof -
  assume "0 \<le> n" "n < 10"
  then have "nat n < 10" by simp
  then show ?thesis using \<open>0 \<le> n\<close> by (simp add: str_int_def str_nat.simps [of "nat n"])
qed

lemma same_day_delta:
  "same_day st en \<Longrightarrow> delta_microseconds en st = microsecond_of_day en - microsecond_of_day st"
  by (simp add: same_day_def delta_microseconds_def microsecond_of_day_def toordinal_def algebra_simps)

lemma hours_of_microseconds:
  fixes us :: int
  shows "(us div 1000000) div 3600 = us div 3600000000"
  using zdiv_zmult2_eq [of 3600 us 1000000] by simp

lemma minutes_of_microseconds:
  fixes us :: int
  shows "((us div 1000000) mod 3600) div 60 = (us mod 3600000000) div 60000000"
proof -
  have m: "us mod 3600000000 = 1000000 * ((us div 1000000) mod 3600) + us mod 1000000"
    using zmod_zmult2_eq [of 3600 us 1000000] by simp
  have "(us mod 3600000000) div 60000000 = ((us mod 3600000000) div 1000000) div 60"
    using zdiv_zmult2_eq [of 60 "us mod 3600000000" 1000000] by simp
  also have "(us mod 3600000000) div 1000000 = (us div 1000000) mod 3600"
    unfolding m by simp
  finally show ?thesis by simp
qed

lemma duration_hm_same_day:
  assumes "same_day st en" and "microsecond_of_day st \<le> microsecond_of_day en"
  shows "duration_hm st en =
           ((microsecond_of_day en - microsecond_of_day st) div 3600000000,
            ((microsecond_of_day en - microsecond_of_day st) mod 3600000000) div 60000000)"
proof -
  have d: "delta_microseconds en st = microsecond_of_day en - microsecond_of_day st"
    using assms(1) by (rule same_day_delta)
  have nonneg: "0 \<le> delta_microseconds en st"
    using assms(2) by (simp add: d)
  have small: "valid_datetime en \<and> valid_datetime st \<longrightarrow> delta_microseconds en st < 2 ^ 53"
  proof
    assume "valid_datetime en \<and> valid_datetime st"
    then have "microsecond_of_day en < 86400000000" "0 \<le> microsecond_of_day st"
      using microsecond_of_day_range by simp_all
    then show "delta_microseconds en st < 2 ^ 53" by (simp add: d)
  qed
  have "int_total_seconds en st = (microsecond_of_day en - microsecond_of_day st) div 1000000"
    using int_total_seconds_floor [OF nonneg small] by (simp add: d)
  then show ?thesis
    by (simp add: duration_hm_def Let_def hours_of_microseconds minutes_of_microseconds)
qed

lemma entry_duration:
  "subscript (make_entry st en) ''duration''
     = Inr (JStr (str_int (fst (duration_hm st en)) @ ''h'' @ str_int (snd (duration_hm st en)) @ ''m''))"
  by (simp add: make_entry_def split: prod.split)

lemma nine_to_five: "duration_hm (at_time d 9 0 0) (at_time d 17 0 0) = (8, 0)"
  using duration_hm_same_day [of "at_time d 9 0 0" "at_time d 17 0 0"]
  by (simp add: same_day_def microsecond_of_day_def second_of_day_def at_time_def)

lemma under_a_minute: "duration_hm (at_time d 9 0 0) (at_time d 9 0 59) = (0, 0)"
  using duration_hm_same_day [of "at_time d 9 0 0" "at_time d 9 0 59"]
  by (simp add: same_day_def microsecond_of_day_def second_of_day_def at_time_def)

text \<open>
  Claim C4. For a start and an end on the same day, the end not before the start, the
  session clock keeps whole hours and whole minutes of the elapsed time and drops the
  seconds: the hours are the elapsed time divided by one hour, rounded down, the minutes
  what is left of it below the hour divided by one minute, rounded down (the elapsed time
  counted in microseconds, as the clock reads it). The entry stores them as
  \<^verbatim>\<open>{hours}h{minutes}m\<close>: nine to five gives \<^verbatim>\<open>8h0m\<close>, and 09:00:00 to 09:00:59 gives
  \<^verbatim>\<open>0h0m\<close>.
\<close>

theorem session_clock_truncates:
  assumes "same_day st en" and "microsecond_of_day st \<le> microsecond_of_day en"
  shows "duration_hm st en =
           ((microsecond_of_day en - microsecond_of_day st) div 3600000000,
            ((microsecond_of_day en - microsecond_of_day st) mod 3600000000) div 60000000)
       \<and> subscript (make_entry st en) ''duration''
           = Inr (JStr (str_int (fst (duration_hm st en)) @ ''h''
                        @ str_int (snd (duration_hm st en)) @ ''m''))
       \<and> subscript (make_entry (at_time st 9 0 0) (at_time st 17 0 0)) ''duration'' = Inr (JStr ''8h0m'')
       \<and> subscript (make_entry (at_time st 9 0 0) (at_time st 9 0 59)) ''duration'' = Inr (JStr ''0h0m'')"
proof (intro conjI)
  show "duration_hm st en =
           ((microsecond_of_day en - microsecond_of_day st) div 3600000000,
            ((microsecond_of_day en - microsecond_of_day st) mod 3600000000) div 60000000)"
    using assms by (rule duration_hm_same_day)
  show "subscript (make_entry st en) ''duration''
           = Inr (JStr (str_int (fst (duration_hm st en)) @ ''h''
                        @ str_int (snd (duration_hm st en)) @ ''m''))"
    by (rule entry_duration)
  show "subscript (make_entry (at_time st 9 0 0) (at_time st 17 0 0)) ''duration'' = Inr (JStr ''8h0m'')"
    by (simp add: entry_duration nine_to_five str_int_digit digit_def)
  show "subscript (make_entry (at_time st 9 0 0) (at_time st 9 0 59)) ''duration'' = Inr (JStr ''0h0m'')"
    by (simp add: entry_duration under_a_minute str_int_digit digit_def)
qed

theorem session_clock_truncates_witness:
  "same_day (datetime_of 2024 11 4 9 0 0) ((datetime_of 2024 11 4 17 25 30)\<lparr>microsecond := 500000\<rparr>)
   \<and> microsecond_of_day (datetime_of 2024 11 4 9 0 0)
       \<le> microsecond_of_day ((datetime_of 2024 11 4 17 25 30)\<lparr>microsecond := 500000\<rparr>)
   \<and> duration_hm (datetime_of 2024 11 4 9 0 0) ((datetime_of 2024 11 4 17 25 30)\<lparr>microsecond := 500000\<rparr>)
       = (8, 25)"
  using session_clock_truncates
    [of "datetime_of 2024 11 4 9 0 0" "(datetime_of 2024 11 4 17 25 30)\<lparr>microsecond := 500000\<rparr>"]
  by (simp add: same_day_def microsecond_of_day_def second_of_day_def datetime_of_def)

section \<open>Redundant operations\<close>

lemma stop_tracking_idle:
  "\<not> is_tracking s \<Longrightarrow> stop_tracking man now s w = (Inr (), s, say NothingToStop w)"
  by (simp add: stop_tracking_def)

lemma start_tracking_active:
  "is_tracking s \<Longrightarrow> start_tracking now s w = (Inr (), s, say AlreadyStarted w)"
  by (simp add: start_tracking_def)

text \<open>
  Claim C5. A redundant operation is a no-op: \<^verbatim>\<open>stop_tracking\<close> on a session that is not
  tracking and \<^verbatim>\<open>start_tracking\<close> on one that is return normally, leave the session
  (flag, start time, stop event, timer, threads) and every file as they were and write no
  record; each prints its notice and nothing more.
\<close>

theorem redundant_operations_absorbed:
  "(\<not> is_tracking s \<longrightarrow>
      stop_tracking man now s w = (Inr (), s, w\<lparr>console := console w @ [NothingToStop]\<rparr>))
   \<and> (is_tracking s \<longrightarrow>
      start_tracking now s w = (Inr (), s, w\<lparr>console := console w @ [AlreadyStarted]\<rparr>))"
  by (simp add: stop_tracking_idle start_tracking_active say_def)

theorem redundant_operations_absorbed_witness:
  "\<not> is_tracking idle
   \<and> stop_tracking False (datetime_of 2024 11 4 17 0 0) idle fresh
       = (Inr (), idle, fresh\<lparr>console := [NothingToStop]\<rparr>)
   \<and> is_tracking (active (datetime_of 2024 11 4 9 0 0))
   \<and> start_tracking (datetime_of 2024 11 4 9 30 0) (active (datetime_of 2024 11 4 9 0 0)) fresh
       = (Inr (), active (datetime_of 2024 11 4 9 0 0), fresh\<lparr>console := [AlreadyStarted]\<rparr>)"
  using redundant_operations_absorbed [of idle False "datetime_of 2024 11 4 17 0 0" fresh]
    redundant_operations_absorbed
      [of "active (datetime_of 2024 11 4 9 0 0)" False "datetime_of 2024 11 4 9 30 0" fresh]
  by (simp add: idle_def active_def fresh_def)


section \<open>Persistence\<close>

lemma append_to_csv_logged:
  assumes "\<not> log_unwritable w" and "write_master_row entry w = (Inl e, w1)"
  shows "append_to_csv entry w
           = (Inr (), say (CsvAppendFailed e) (w1\<lparr>log_file := log_file w1 @ [CsvAppendFailed e]\<rparr>))"
proof -
  have "log_unwritable w1 = log_unwritable w"
    using assms(2) by (auto simp: write_master_row_def Let_def split: if_splits sum.splits)
  then show ?thesis
    using assms by (simp add: append_to_csv_def log_def)
qed

lemma write_master_row_frame:
  assumes "write_master_row entry w = (r, w1)"
  shows "store w1 = store w \<and> log_file w1 = log_file w \<and> console w1 = console w
       \<and> store_unwritable w1 = store_unwritable w \<and> log_unwritable w1 = log_unwritable w
       \<and> csv_unwritable w1 = csv_unwritable w \<and> (csv_unwritable w \<longrightarrow> master_csv w1 = master_csv w)"
  using assms by (auto simp: write_master_row_def Let_def split: if_splits sum.splits)

lemma append_to_csv_returns:
  assumes "\<not> log_unwritable w"
  shows "fst (append_to_csv entry w) = Inr ()
       \<and> store (snd (append_to_csv entry w)) = store w
       \<and> store_unwritable (snd (append_to_csv entry w)) = store_unwritable w
       \<and> log_unwritable (snd (append_to_csv entry w)) = log_unwritable w
       \<and> (csv_unwritable w \<longrightarrow> master_csv (snd (append_to_csv entry w)) = master_csv w)"
proof (cases "write_master_row entry w")
  case (Pair r w1)
  note fr = write_master_row_frame [OF Pair]
  show ?thesis
  proof (cases r)
    case (Inl e)
    with Pair assms fr show ?thesis
      by (simp add: append_to_csv_logged [of w entry e w1] say_def)
  next
    case (Inr u)
    with Pair fr show ?thesis by (simp add: append_to_csv_def)
  qed
qed

lemma append_time_entry_saves:
  assumes "load_time_entries w = Inr (JList xs)" and "\<not> store_unwritable w" and "\<not> log_unwritable w"
  shows "fst (append_time_entry entry w) = Inr ()
       \<and> store (snd (append_time_entry entry w)) = Document (JList (xs @ [entry]))
       \<and> store_unwritable (snd (append_time_entry entry w)) = store_unwritable w
       \<and> log_unwritable (snd (append_time_entry entry w)) = log_unwritable w
       \<and> (csv_unwritable w \<longrightarrow> master_csv (snd (append_time_entry entry w)) = master_csv w)"
proof -
  let ?w1 = "w\<lparr>store := Document (JList (xs @ [entry]))\<rparr>"
  have "append_time_entry entry w = append_to_csv entry ?w1"
    using assms by (simp add: append_time_entry_def save_time_entries_def)
  moreover have "\<not> log_unwritable ?w1" using assms by simp
  ultimately show ?thesis
    using append_to_csv_returns [of ?w1 entry] by simp
qed

text \<open>
  Claim C8 as stated fails. When the cumulative CSV export and the log file both cannot
  be opened, the handler of \<^verbatim>\<open>append_to_csv\<close> catches the first \<^verbatim>\<open>OSError\<close>, and its own
  call of \<^verbatim>\<open>log\<close> raises the second, which nothing catches: \<^verbatim>\<open>append_time_entry\<close> ends with
  an exception, after the record was saved in the store.
\<close>

theorem unlogged_csv_failure_surfaces:
  "append_time_entry (entry_dated ''04-11-2024'') (fresh\<lparr>csv_unwritable := True, log_unwritable := True\<rparr>)
     = (Inl OSError,
        fresh\<lparr>csv_unwritable := True, log_unwritable := True,
              store := Document (JList [entry_dated ''04-11-2024''])\<rparr>)"
  by (simp add: append_time_entry_def load_time_entries_def save_time_entries_def
      append_to_csv_def write_master_row_def log_def fresh_def)

text \<open>
  Claim C8, amended. When \<^verbatim>\<open>load_time_entries\<close> returns a list (the store file is absent,
  is text that is no JSON, or holds a JSON list), the store file and the log file can be
  written, and the append to the cumulative CSV export raises (whatever the exception),
  \<^verbatim>\<open>append_to_csv\<close> catches it and logs it, so \<^verbatim>\<open>append_time_entry\<close> returns normally with
  the record saved in the JSON store. The store then holds a record that the export lacks
  (an export that cannot be opened is left as it was), and the caller sees no error.
\<close>

theorem csv_failure_absorbed:
  assumes "load_time_entries w = Inr (JList xs)" and "\<not> store_unwritable w" and "\<not> log_unwritable w"
    and "write_master_row entry (w\<lparr>store := Document (JList (xs @ [entry]))\<rparr>) = (Inl e, w1)"
  shows "fst (append_to_csv entry (w\<lparr>store := Document (JList (xs @ [entry]))\<rparr>)) = Inr ()
       \<and> fst (append_time_entry entry w) = Inr ()
       \<and> store (snd (append_time_entry entry w)) = Document (JList (xs @ [entry]))
       \<and> log_file (snd (append_time_entry entry w)) = log_file w @ [CsvAppendFailed e]
       \<and> (csv_unwritable w \<longrightarrow> master_csv (snd (append_time_entry entry w)) = master_csv w)"
proof -
  let ?w0 = "w\<lparr>store := Document (JList (xs @ [entry]))\<rparr>"
  have eq: "append_time_entry entry w = append_to_csv entry ?w0"
    using assms(1,2) by (simp add: append_time_entry_def save_time_entries_def)
  have lg: "\<not> log_unwritable ?w0" using assms(3) by simp
  have caught: "append_to_csv entry ?w0
      = (Inr (), say (CsvAppendFailed e) (w1\<lparr>log_file := log_file w1 @ [CsvAppendFailed e]\<rparr>))"
    using append_to_csv_logged [OF lg assms(4)] .
  have fr: "log_file w1 = log_file w"
    using write_master_row_frame [OF assms(4)] by simp
  show ?thesis
    using append_time_entry_saves [OF assms(1,2,3), of entry] caught fr
    by (simp add: eq say_def)
qed

theorem csv_failure_absorbed_witness:
  "fst (append_time_entry (entry_dated ''04-11-2024'') (fresh\<lparr>csv_unwritable := True\<rparr>)) = Inr ()
   \<and> store (snd (append_time_entry (entry_dated ''04-11-2024'') (fresh\<lparr>csv_unwritable := True\<rparr>)))
       = Document (JList [entry_dated ''04-11-2024''])
   \<and> log_file (snd (append_time_entry (entry_dated ''04-11-2024'') (fresh\<lparr>csv_unwritable := True\<rparr>)))
       = [CsvAppendFailed OSError]
   \<and> master_csv (snd (append_time_entry (entry_dated ''04-11-2024'') (fresh\<lparr>csv_unwritable := True\<rparr>)))
       = None"
  using csv_failure_absorbed
    [of "fresh\<lparr>csv_unwritable := True\<rparr>" "[]" "entry_dated ''04-11-2024''" OSError
        "fresh\<lparr>csv_unwritable := True, store := Document (JList [entry_dated ''04-11-2024''])\<rparr>"]
  by (simp add: fresh_def load_time_entries_def write_master_row_def)

text \<open>
  Claim C3 says that \<^verbatim>\<open>stop_tracking\<close> on an active session completes the transition even
  when the persistence write raises. The code at that input: with the store file not
  writable, \<^verbatim>\<open>save_time_entries\<close> raises \<^verbatim>\<open>OSError\<close>, nothing catches it (only the CSV append
  has a handler), and \<^verbatim>\<open>stop_tracking\<close> is left before line 147: the session is still
  tracking and the stop event is not set.
\<close>

theorem store_write_failure_blocks_transition:
  "fst (stop_tracking True (datetime_of 2024 11 4 17 0 0) (active (datetime_of 2024 11 4 9 0 0))
          (fresh\<lparr>store_unwritable := True\<rparr>)) = Inl OSError
   \<and> is_tracking (fst (snd (stop_tracking True (datetime_of 2024 11 4 17 0 0)
          (active (datetime_of 2024 11 4 9 0 0)) (fresh\<lparr>store_unwritable := True\<rparr>))))
   \<and> \<not> stop_event (fst (snd (stop_tracking True (datetime_of 2024 11 4 17 0 0)
          (active (datetime_of 2024 11 4 9 0 0)) (fresh\<lparr>store_unwritable := True\<rparr>))))"
  by (simp add: stop_tracking_def stop_record_def append_time_entry_def load_time_entries_def
      save_time_entries_def log_def say_def cancel_timer_def active_def fresh_def Let_def)

text \<open>
  Claim C7 says that \<^verbatim>\<open>load_time_entries\<close> returns the empty list, and never raises, when
  the store file is absent or is no valid JSON. The code at a store file whose bytes are
  not text in the locale's encoding: \<^verbatim>\<open>json.load\<close> raises \<^verbatim>\<open>UnicodeDecodeError\<close>, which is not
  a \<^verbatim>\<open>JSONDecodeError\<close>, so the handler does not catch it and the call raises.
\<close>

theorem undecodable_store_raises:
  "load_time_entries (fresh\<lparr>store := Undecodable\<rparr>) = Inl UnicodeDecodeError"
  by (simp add: load_time_entries_def)

text \<open>The two cases the handler does cover.\<close>

lemma load_absent_or_malformed:
  "store w = Absent \<or> store w = Malformed \<Longrightarrow> load_time_entries w = Inr (JList [])"
  by (auto simp: load_time_entries_def)

section \<open>Finalizing a session\<close>

lemma load_depends_on_store: "store w' = store w \<Longrightarrow> load_time_entries w' = load_time_entries w"
  by (simp add: load_time_entries_def)

lemma stop_record_appends:
  assumes "start_time s = Some st" and "load_time_entries w = Inr (JList xs)"
    and "\<not> store_unwritable w" and "\<not> log_unwritable w"
  shows "fst (stop_record man t s w) = Inr ()
       \<and> fst (snd (stop_record man t s w)) = cancel_timer s
       \<and> store (snd (snd (stop_record man t s w))) = Document (JList (xs @ [make_entry st t]))
       \<and> \<not> log_unwritable (snd (snd (stop_record man t s w)))"
proof -
  let ?n = "stopped man (duration_hm st t)"
  let ?w2 = "(say ?n w)\<lparr>log_file := log_file (say ?n w) @ [?n]\<rparr>"
  have l: "load_time_entries ?w2 = Inr (JList xs)"
    using assms(2) by (simp add: load_time_entries_def say_def)
  have f: "\<not> store_unwritable ?w2" "\<not> log_unwritable ?w2"
    using assms(3,4) by (simp_all add: say_def)
  have "stop_record man t s w
          = (case append_time_entry (make_entry st t) ?w2 of (r, w3) \<Rightarrow> (r, cancel_timer s, w3))"
    using assms(1,4) by (simp add: stop_record_def Let_def log_def say_def)
  then show ?thesis
    using append_time_entry_saves [OF l f, of "make_entry st t"] assms(4)
    by (simp add: split_beta say_def)
qed

lemma stop_transition_done:
  assumes "\<not> log_unwritable w"
  shows "fst (stop_transition s w) = Inr ()
       \<and> fst (snd (stop_transition s w)) = s\<lparr>is_tracking := False, stop_event := True\<rparr>
       \<and> store (snd (snd (stop_transition s w))) = store w"
  using assms by (simp add: stop_transition_def Let_def log_def say_def)

lemma cancel_timer_frame:
  "is_tracking (cancel_timer s) = is_tracking s \<and> start_time (cancel_timer s) = start_time s
   \<and> stop_event (cancel_timer s) = stop_event s"
  by (simp add: cancel_timer_def split: option.split)

lemma stop_tracking_finalizes:
  assumes "is_tracking s" and "start_time s = Some st" and "load_time_entries w = Inr (JList xs)"
    and "\<not> store_unwritable w" and "\<not> log_unwritable w"
  shows "fst (stop_tracking man t s w) = Inr ()
       \<and> \<not> is_tracking (fst (snd (stop_tracking man t s w)))
       \<and> stop_event (fst (snd (stop_tracking man t s w)))
       \<and> store (snd (snd (stop_tracking man t s w))) = Document (JList (xs @ [make_entry st t]))"
proof -
  obtain r s1 w1 where rec: "stop_record man t s w = (r, s1, w1)"
    by (cases "stop_record man t s w") auto
  have r: "r = Inr ()" "s1 = cancel_timer s" "store w1 = Document (JList (xs @ [make_entry st t]))"
    "\<not> log_unwritable w1"
    using stop_record_appends [OF assms(2,3,4,5), of man t] rec by simp_all
  have "stop_tracking man t s w = stop_transition s1 w1"
    using assms(1) rec r(1) by (simp add: stop_tracking_def)
  then show ?thesis
    using stop_transition_done [OF r(4), of s1] r(3) by simp
qed

lemma finalize_all_idle:
  "\<not> is_tracking s \<Longrightarrow>
     fst (finalize_all calls s w) = Inr () \<and> fst (snd (finalize_all calls s w)) = s
     \<and> store (snd (snd (finalize_all calls s w))) = store w"
proof (induction calls arbitrary: w)
  case Nil
  then show ?case by simp
next
  case (Cons c calls)
  have "finalize_all (c # calls) s w = finalize_all calls s (say NothingToStop w)"
    using Cons.prems by (simp add: stop_tracking_idle)
  then show ?case
    using Cons.IH [OF Cons.prems, of "say NothingToStop w"] by (simp add: say_def)
qed

text \<open>
  Claim C2, amended. Take a session that is tracking and has its start time, a store
  that \<^verbatim>\<open>load_time_entries\<close> reads as a list (the store file is absent, is text that is no
  JSON, or holds a JSON list), and a store file and a log file that can be written. When
  the calls of \<^verbatim>\<open>stop_tracking\<close> do not overlap (each returns before the next begins),
  all of them return normally, afterwards the session is no longer tracking and the stop
  event is set, and the store holds the entries it had followed by exactly one new record,
  that of the first call. The guard of \<^verbatim>\<open>stop_tracking\<close> is the test of \<^verbatim>\<open>is_tracking\<close>; it
  takes no lock.
\<close>

theorem finalize_once_in_sequence:
  assumes "is_tracking s" and "start_time s = Some st" and "load_time_entries w = Inr (JList xs)"
    and "\<not> store_unwritable w" and "\<not> log_unwritable w"
  shows "fst (finalize_all ((man, t) # calls) s w) = Inr ()
       \<and> \<not> is_tracking (fst (snd (finalize_all ((man, t) # calls) s w)))
       \<and> stop_event (fst (snd (finalize_all ((man, t) # calls) s w)))
       \<and> store (snd (snd (finalize_all ((man, t) # calls) s w)))
           = Document (JList (xs @ [make_entry st t]))"
proof -
  obtain r s1 w1 where st1: "stop_tracking man t s w = (r, s1, w1)"
    by (cases "stop_tracking man t s w") auto
  have f: "r = Inr ()" "\<not> is_tracking s1" "stop_event s1"
    "store w1 = Document (JList (xs @ [make_entry st t]))"
    using stop_tracking_finalizes [OF assms, of man t] st1 by simp_all
  have "finalize_all ((man, t) # calls) s w = finalize_all calls s1 w1"
    using st1 f(1) by simp
  then show ?thesis
    using finalize_all_idle [OF f(2), of calls w1] f by simp
qed

text \<open>One caller running its three parts is \<^verbatim>\<open>stop_tracking\<close>.\<close>

lemma run_alone:
  "snd (run [0, 0, 0] ([\<lparr>manual = man, clock = t, at = AtTest\<rparr>], s, w)) = snd (stop_tracking man t s w)"
proof (cases "is_tracking s")
  case False
  then show ?thesis
    by (simp add: run_def step_def advance_def stop_tracking_def)
next
  case True
  obtain r s1 w1 where rec: "stop_record man t s w = (r, s1, w1)"
    by (cases "stop_record man t s w") auto
  show ?thesis
  proof (cases r)
    case (Inl e)
    with True rec show ?thesis
      by (simp add: run_def step_def advance_def stop_tracking_def)
  next
    case (Inr u)
    obtain r2 s2 w2 where tr: "stop_transition s1 w1 = (r2, s2, w2)"
      by (cases "stop_transition s1 w1") auto
    with True rec Inr show ?thesis
      by (cases r2) (simp_all add: run_def step_def advance_def stop_tracking_def)
  qed
qed

lemma row_of_make_entry:
  "row_of (make_entry st en)
     = Inr [JStr (strftime_dmY st), JStr (strftime_HMS st), JStr (strftime_HMS en),
            JStr (str_int (fst (duration_hm st en)) @ ''h'' @ str_int (snd (duration_hm st en)) @ ''m'')]"
  by (simp add: row_of_def make_entry_def split: prod.split)

lemmas eval_defs = run_def step_def advance_def stop_record_def stop_transition_def
  append_time_entry_def load_time_entries_def save_time_entries_def append_to_csv_def
  write_master_row_def row_of_make_entry log_def say_def cancel_timer_def
  active_def fresh_def key_listener_def timeout_def Let_def

lemma entry_example:
  "make_entry (datetime_of 2024 11 4 9 0 0) (datetime_of 2024 11 4 16 40 0)
     = JDict [(''date'', JStr ''04-11-2024''), (''start_time'', JStr ''09:00:00''),
              (''end_time'', JStr ''16:40:00''), (''duration'', JStr ''7h40m'')]"
  by code_simp

text \<open>
  Claim C2 as stated fails. The key listener and the auto-stop timer both test
  \<^verbatim>\<open>is_tracking\<close> before either has cleared it (the flag is cleared only after the record is
  written); both then write a record and both make the transition: one session, two
  records in the store.
\<close>

theorem racing_finalizers_write_twice:
  "map at (fst (run [0, 1, 0, 1, 0, 1]
      ([key_listener (datetime_of 2024 11 4 16 40 0), timeout (datetime_of 2024 11 4 16 40 0)],
       active (datetime_of 2024 11 4 9 0 0), fresh))) = [Returned, Returned]
   \<and> store (snd (snd (run [0, 1, 0, 1, 0, 1]
      ([key_listener (datetime_of 2024 11 4 16 40 0), timeout (datetime_of 2024 11 4 16 40 0)],
       active (datetime_of 2024 11 4 9 0 0), fresh))))
     = Document (JList
         [make_entry (datetime_of 2024 11 4 9 0 0) (datetime_of 2024 11 4 16 40 0),
          make_entry (datetime_of 2024 11 4 9 0 0) (datetime_of 2024 11 4 16 40 0)])"
  by (simp add: eval_defs)

theorem finalize_once_in_sequence_witness:
  "fst (finalize_all [(True, datetime_of 2024 11 4 16 40 0), (False, datetime_of 2024 11 4 16 40 0)]
          (active (datetime_of 2024 11 4 9 0 0)) fresh) = Inr ()
   \<and> store (snd (snd (finalize_all
          [(True, datetime_of 2024 11 4 16 40 0), (False, datetime_of 2024 11 4 16 40 0)]
          (active (datetime_of 2024 11 4 9 0 0)) fresh)))
       = Document (JList [make_entry (datetime_of 2024 11 4 9 0 0) (datetime_of 2024 11 4 16 40 0)])"
  using finalize_once_in_sequence
    [of "active (datetime_of 2024 11 4 9 0 0)" "datetime_of 2024 11 4 9 0 0" fresh "[]"
        True "datetime_of 2024 11 4 16 40 0" "[(False, datetime_of 2024 11 4 16 40 0)]"]
  by (simp add: active_def fresh_def load_time_entries_def)

section \<open>The terminal\<close>

text \<open>
  Claim C10 as stated fails. When the read raises and the \<^verbatim>\<open>tcsetattr\<close> of the
  \<^verbatim>\<open>finally\<close> clause raises too (the terminal hung up), \<^verbatim>\<open>get_key_press\<close> ends with that
  exception and the terminal is left raw. When the key listener is dropped while it waits
  in the read, the call never ends, the \<^verbatim>\<open>finally\<close> clause never runs, and the terminal is
  left raw as well.
\<close>

theorem raw_mode_can_leak:
  "get_key_press to_raw
      \<lparr>setraw_fault = None, reading = ReadRaises OSError, restore_fault = Some TermiosError\<rparr> cooked
     = (Some (Inl TermiosError), \<lparr>is_tty = True, attrs = ''raw''\<rparr>)
   \<and> get_key_press to_raw \<lparr>setraw_fault = None, reading = Killed, restore_fault = None\<rparr> cooked
     = (None, \<lparr>is_tty = True, attrs = ''raw''\<rparr>)"
  by (simp add: get_key_press_def raw_read_def cooked_def to_raw_def)

text \<open>
  Claim C10, amended. Whenever the \<^verbatim>\<open>try\<close> block of \<^verbatim>\<open>get_key_press\<close> comes to an end
  (\<^verbatim>\<open>tty.setraw\<close> raises, or the read returns a key or raises) and the \<^verbatim>\<open>tcsetattr\<close> of the
  \<^verbatim>\<open>finally\<close> clause does not itself raise, the call ends and the terminal is as it was
  before the call; so it is when standard input is no terminal, where \<^verbatim>\<open>tcgetattr\<close> raises
  and nothing was changed.
\<close>

theorem get_key_press_restores:
  assumes "restore_fault ev = None" and "setraw_fault ev \<noteq> None \<or> reading ev \<noteq> Killed"
  shows "fst (get_key_press raw ev t) \<noteq> None \<and> snd (get_key_press raw ev t) = t"
  using assms
  by (cases "reading ev")
     (auto simp: get_key_press_def raw_read_def Let_def split: option.split)

theorem get_key_press_restores_witness:
  "get_key_press to_raw \<lparr>setraw_fault = None, reading = ReadRaises OSError, restore_fault = None\<rparr> cooked
     = (Some (Inl OSError), cooked)"
  using get_key_press_restores
    [of "\<lparr>setraw_fault = None, reading = ReadRaises OSError, restore_fault = None\<rparr>" to_raw cooked]
  by (simp add: get_key_press_def raw_read_def cooked_def)


section \<open>The weekly filter\<close>

lemmas calendar_defs = toordinal_def ymd2ord_def days_before_year_def days_before_month_def
  DAYS_BEFORE_MONTH_def DAYS_IN_MONTH_def is_leap_def MAXORDINAL_def ord2ymd_def datetime_of_def

lemma bounds_oct: "week_bounds (datetime_of 2024 10 30 12 0 0)
         = Inr (datetime_of 2024 10 28 12 0 0, datetime_of 2024 11 3 12 0 0)"
  by (simp add: week_bounds_def add_days_def weekday_def calendar_defs Let_def)

lemma bounds_nov: "week_bounds (datetime_of 2024 11 6 12 0 0)
         = Inr (datetime_of 2024 11 4 12 0 0, datetime_of 2024 11 10 12 0 0)"
  by (simp add: week_bounds_def add_days_def weekday_def calendar_defs Let_def)

lemma str_28: "strftime_dmY (datetime_of 2024 10 28 12 0 0) = ''28-10-2024''"
  by code_simp
lemma str_03: "strftime_dmY (datetime_of 2024 11 3 12 0 0) = ''03-11-2024''"
  by code_simp
lemma str_04: "strftime_dmY (datetime_of 2024 11 4 12 0 0) = ''04-11-2024''"
  by code_simp
lemma str_10: "strftime_dmY (datetime_of 2024 11 10 12 0 0) = ''10-11-2024''"
  by code_simp

lemma export_reports_empty_week:
  "generate_weekly_csv (datetime_of 2024 10 30 12 0 0) later sch
       (fresh\<lparr>store := Document (JList [entry_dated ''29-10-2024''])\<rparr>)
     = schedule_weekly_csv later sch
         (fresh\<lparr>store := Document (JList [entry_dated ''29-10-2024'']),
                log_file := [NoWeeklyEntries], console := [NoWeeklyEntries]\<rparr>)"
  by (simp add: generate_weekly_csv_def bounds_oct load_time_entries_def weekly_entries_def
      str_28 str_03 in_week_def entry_dated_def export_week_def log_def say_def fresh_def)

text \<open>
  Claim C1 says that the weekly export holds a record exactly when its date lies in the
  Monday to Sunday week of \<open>now\<close>. The code compares the \<^verbatim>\<open>dd-mm-yyyy\<close> texts, not the
  dates. On Wednesday 30-10-2024 the week runs from Monday 28-10-2024 to Sunday 03-11-2024,
  and a record of Tuesday 29-10-2024 is left out, since \<^verbatim>\<open>29-10-2024\<close> is not below
  \<^verbatim>\<open>03-11-2024\<close> as text: \<^verbatim>\<open>generate_weekly_csv\<close> reports a week without entries and writes
  no export. On Wednesday 06-11-2024 the week runs from 04-11-2024 to
  10-11-2024, and a record of 05-12-2023 is taken in.
\<close>

theorem weekly_filter_compares_text:
  "weekday (datetime_of 2024 10 30 12 0 0) = 2
   \<and> week_bounds (datetime_of 2024 10 30 12 0 0)
       = Inr (datetime_of 2024 10 28 12 0 0, datetime_of 2024 11 3 12 0 0)
   \<and> weekly_entries (datetime_of 2024 10 30 12 0 0) (JList [entry_dated ''29-10-2024'']) = Inr []
   \<and> generate_weekly_csv (datetime_of 2024 10 30 12 0 0) (datetime_of 2024 10 30 12 0 1) \<lparr>armed = []\<rparr>
         (fresh\<lparr>store := Document (JList [entry_dated ''29-10-2024''])\<rparr>)
       = schedule_weekly_csv (datetime_of 2024 10 30 12 0 1) \<lparr>armed = []\<rparr>
           (fresh\<lparr>store := Document (JList [entry_dated ''29-10-2024'']),
                  log_file := [NoWeeklyEntries], console := [NoWeeklyEntries]\<rparr>)
   \<and> week_bounds (datetime_of 2024 11 6 12 0 0)
       = Inr (datetime_of 2024 11 4 12 0 0, datetime_of 2024 11 10 12 0 0)
   \<and> weekly_entries (datetime_of 2024 11 6 12 0 0) (JList [entry_dated ''05-12-2023''])
       = Inr [entry_dated ''05-12-2023'']"
proof (intro conjI)
  show "weekday (datetime_of 2024 10 30 12 0 0) = 2"
    by (simp add: weekday_def calendar_defs)
  show "week_bounds (datetime_of 2024 10 30 12 0 0)
       = Inr (datetime_of 2024 10 28 12 0 0, datetime_of 2024 11 3 12 0 0)"
    by (rule bounds_oct)
  show "weekly_entries (datetime_of 2024 10 30 12 0 0) (JList [entry_dated ''29-10-2024'']) = Inr []"
    by (simp add: weekly_entries_def bounds_oct str_28 str_03 in_week_def entry_dated_def)
  show "generate_weekly_csv (datetime_of 2024 10 30 12 0 0) (datetime_of 2024 10 30 12 0 1) \<lparr>armed = []\<rparr>
         (fresh\<lparr>store := Document (JList [entry_dated ''29-10-2024''])\<rparr>)
       = schedule_weekly_csv (datetime_of 2024 10 30 12 0 1) \<lparr>armed = []\<rparr>
           (fresh\<lparr>store := Document (JList [entry_dated ''29-10-2024'']),
                  log_file := [NoWeeklyEntries], console := [NoWeeklyEntries]\<rparr>)"
    by (rule export_reports_empty_week)
  show "week_bounds (datetime_of 2024 11 6 12 0 0)
       = Inr (datetime_of 2024 11 4 12 0 0, datetime_of 2024 11 10 12 0 0)"
    by (rule bounds_nov)
  show "weekly_entries (datetime_of 2024 11 6 12 0 0) (JList [entry_dated ''05-12-2023''])
       = Inr [entry_dated ''05-12-2023'']"
    by (simp add: weekly_entries_def bounds_nov str_04 str_10 in_week_def entry_dated_def)
qed

section \<open>The weekly scheduler\<close>

lemma target_day_is_monday:
  "strptime_A WEEKLY_CSV_DAY = Inr (datetime_of 1900 1 1 0 0 0) \<and> weekday (datetime_of 1900 1 1 0 0 0) = 0"
  by (simp add: strptime_A_def WEEKLY_CSV_DAY_def weekday_def calendar_defs)

lemma target_time: "strptime_HM WEEKLY_CSV_TIME = Inr (datetime_of 1900 1 1 16 0 0)"
  by (simp add: strptime_HM_def WEEKLY_CSV_TIME_def digit_of_def datetime_of_def)

text \<open>
  Claim C6 says that on the target weekday before the target time the next run is today
  at the target time. The target is Friday 16:00 (\<^verbatim>\<open>WEEKLY_CSV_DAY\<close>, \<^verbatim>\<open>WEEKLY_CSV_TIME\<close>,
  and the docstring of \<^verbatim>\<open>schedule_weekly_csv\<close>). The code on Friday 01-11-2024 at 10:00:
  the weekday it takes from \<^verbatim>\<open>strptime(WEEKLY_CSV_DAY, '%A')\<close> is that of 1900-01-01, a
  Monday, so the next run is Monday 04-11-2024 at 16:00.
\<close>

theorem weekly_run_on_monday:
  "weekday (datetime_of 2024 11 1 10 0 0) = 4
   \<and> next_weekly_run (datetime_of 2024 11 1 10 0 0) = Inr (datetime_of 2024 11 4 16 0 0)
   \<and> weekday (datetime_of 2024 11 4 16 0 0) = 0"
proof (intro conjI)
  show "weekday (datetime_of 2024 11 1 10 0 0) = 4"
    by (simp add: weekday_def calendar_defs)
  show "weekday (datetime_of 2024 11 4 16 0 0) = 0"
    by (simp add: weekday_def calendar_defs)
  have w: "weekday (datetime_of 2024 11 1 10 0 0) = 4"
    by (simp add: weekday_def calendar_defs)
  have a: "add_days (datetime_of 2024 11 1 10 0 0) 3 = Inr (datetime_of 2024 11 4 10 0 0)"
    by (simp add: add_days_def calendar_defs Let_def)
  show "next_weekly_run (datetime_of 2024 11 1 10 0 0) = Inr (datetime_of 2024 11 4 16 0 0)"
    by (simp add: next_weekly_run_def target_day_is_monday target_time w a Let_def)
      (simp add: datetime_of_def)
qed


section \<open>The calendar\<close>





























end
